theory Spec2Isabelle
  imports Complex_Main "HOL-Library.Sublist"
begin

text \<open>
  A model of the process planner of the fab process generator: \<open>generateFlow\<close>,
  \<open>mapLayersToSteps\<close>, \<open>calculateDuration\<close>, \<open>analyzeLayout\<close>,
  \<open>estimateMinFeatureSize\<close>, \<open>formatText\<close> and \<open>formatMarkdown\<close> of
  \<open>process_planner.js\<close>, with the layout fixture of \<open>gds_parser.js\<close>. Each function
  of the source is a function of the same name here; an exception is an \<open>Inl\<close> result.
\<close>

section \<open>JavaScript values used by the process planner\<close>

subsection \<open>Numbers\<close>

text \<open>
  A JavaScript number is an IEEE-754 double: \<open>NaN\<close>, one of the two infinities, the
  negative zero, or a finite double \<open>Fin r\<close>, given by the real number \<open>r\<close> it
  denotes (\<open>Fin 0\<close> is the positive zero). The rules below for the special values are
  those of the language (\<open>x / 0\<close> is an infinity or \<open>NaN\<close>, never an exception).
\<close>

datatype jsnum = Fin real | NegZero | PInf | NInf | NaN

fun negative :: "jsnum \<Rightarrow> bool" where
  "negative (Fin r) = (r < 0)"
| "negative NegZero = True"
| "negative PInf = False"
| "negative NInf = True"
| "negative NaN = False"

fun val :: "jsnum \<Rightarrow> real" where
  "val (Fin r) = r"
| "val NegZero = 0"
| "val PInf = 0"
| "val NInf = 0"
| "val NaN = 0"

fun is_zero :: "jsnum \<Rightarrow> bool" where
  "is_zero (Fin r) = (r = 0)"
| "is_zero NegZero = True"
| "is_zero PInf = False"
| "is_zero NInf = False"
| "is_zero NaN = False"

fun is_inf :: "jsnum \<Rightarrow> bool" where
  "is_inf (Fin r) = False"
| "is_inf NegZero = False"
| "is_inf PInf = True"
| "is_inf NInf = True"
| "is_inf NaN = False"

text \<open>\<open>NaN\<close> or an infinity: what a division by zero leaves behind.\<close>

fun nonfinite :: "jsnum \<Rightarrow> bool" where
  "nonfinite (Fin r) = False"
| "nonfinite NegZero = False"
| "nonfinite PInf = True"
| "nonfinite NInf = True"
| "nonfinite NaN = True"

definition signed_zero :: "bool \<Rightarrow> jsnum" where
  "signed_zero neg = (if neg then NegZero else Fin 0)"

definition signed_inf :: "bool \<Rightarrow> jsnum" where
  "signed_inf neg = (if neg then NInf else PInf)"

definition signed_fin :: "bool \<Rightarrow> real \<Rightarrow> jsnum" where
  "signed_fin neg r = (if r = 0 then signed_zero neg else Fin r)"

subsection \<open>The engine\<close>

text \<open>
  Two things the planner takes from the JavaScript engine are not defined here but
  passed to every function that needs them, as the parameter \<open>js\<close>:
  \<^item> \<open>to_double js r\<close>, the double that the real number \<open>r\<close> is rounded to: a finite
    double, a zero when \<open>r\<close> is too small, an infinity when \<open>r\<close> is too large. The
    operations \<open>+\<close>, \<open>*\<close>, \<open>/\<close> and \<open>Math.sqrt\<close> of the language return the exact
    result of the operation rounded in this way, so sums and products of doubles are
    not exact and depend on the order of the operations;
  \<^item> \<open>toUpperCase js s\<close>, the result of \<open>String.prototype.toUpperCase\<close> on \<open>s\<close>,
    which follows the Unicode case mappings.
  What is proved for every \<open>js\<close> holds for the engine that runs the planner.
\<close>

record engine =
  to_double :: "real \<Rightarrow> jsnum"
  toUpperCase :: "string \<Rightarrow> string"

text \<open>
  The result of an operation whose exact result is the real number \<open>r\<close>: \<open>r\<close> rounded
  to a double; a zero result, exact or by underflow, has the sign \<open>neg\<close>.
\<close>

definition finite_result :: "engine \<Rightarrow> bool \<Rightarrow> real \<Rightarrow> jsnum" where
  "finite_result js neg r =
     (if r = 0 \<or> is_zero (to_double js r) then signed_zero neg else to_double js r)"

text \<open>\<open>x * y\<close>\<close>

definition js_mul :: "engine \<Rightarrow> jsnum \<Rightarrow> jsnum \<Rightarrow> jsnum" where
  "js_mul js x y =
     (if x = NaN \<or> y = NaN then NaN
      else if (is_inf x \<and> is_zero y) \<or> (is_zero x \<and> is_inf y) then NaN
      else if is_inf x \<or> is_inf y then signed_inf (negative x \<noteq> negative y)
      else finite_result js (negative x \<noteq> negative y) (val x * val y))"

text \<open>\<open>x / y\<close>\<close>

definition js_div :: "engine \<Rightarrow> jsnum \<Rightarrow> jsnum \<Rightarrow> jsnum" where
  "js_div js x y =
     (if x = NaN \<or> y = NaN then NaN
      else if is_inf x \<and> is_inf y then NaN
      else if is_zero x \<and> is_zero y then NaN
      else if is_inf x \<or> is_zero y then signed_inf (negative x \<noteq> negative y)
      else if is_inf y then signed_zero (negative x \<noteq> negative y)
      else finite_result js (negative x \<noteq> negative y) (val x / val y))"

text \<open>\<open>x + y\<close>: an exact sum of zero is the positive zero, unless both terms are the
  negative zero.\<close>

definition js_add :: "engine \<Rightarrow> jsnum \<Rightarrow> jsnum \<Rightarrow> jsnum" where
  "js_add js x y =
     (if x = NaN \<or> y = NaN then NaN
      else if is_inf x \<and> is_inf y then (if x = y then x else NaN)
      else if is_inf x then x
      else if is_inf y then y
      else if x = NegZero \<and> y = NegZero then NegZero
      else finite_result js (val x + val y < 0) (val x + val y))"

text \<open>\<open>Math.sqrt(x)\<close>\<close>

fun Math_sqrt :: "engine \<Rightarrow> jsnum \<Rightarrow> jsnum" where
  "Math_sqrt js (Fin r) = (if r < 0 then NaN else finite_result js False (sqrt r))"
| "Math_sqrt js NegZero = NegZero"
| "Math_sqrt js PInf = PInf"
| "Math_sqrt js NInf = NaN"
| "Math_sqrt js NaN = NaN"

text \<open>
  \<open>Math.round(x)\<close>: the nearest integer, a tie going up (towards \<open>+\<infinity>\<close>); a
  negative argument that rounds to zero gives the negative zero. The result is a double
  whenever \<open>x\<close> is, so nothing is rounded a second time.
\<close>

fun Math_round :: "jsnum \<Rightarrow> jsnum" where
  "Math_round (Fin r) = signed_fin (r < 0) (of_int \<lfloor>r + 1 / 2\<rfloor>)"
| "Math_round NegZero = NegZero"
| "Math_round PInf = PInf"
| "Math_round NInf = NInf"
| "Math_round NaN = NaN"

text \<open>\<open>x < y\<close> and \<open>x > y\<close>: false as soon as one side is \<open>NaN\<close>; the two zeros are equal.\<close>

fun js_less :: "jsnum \<Rightarrow> jsnum \<Rightarrow> bool" where
  "js_less NaN y = False"
| "js_less x NaN = False"
| "js_less PInf y = False"
| "js_less x NInf = False"
| "js_less NInf y = True"
| "js_less x PInf = True"
| "js_less x y = (val x < val y)"

definition js_gt :: "jsnum \<Rightarrow> jsnum \<Rightarrow> bool" where
  "js_gt x y = js_less y x"


text \<open>
  What the value computed for the fixture asks of the rounding, and what rounding to the
  nearest double provides: an integer of magnitude up to \<open>2^53\<close> is a double, and a
  real number of magnitude between \<open>1\<close> and \<open>2^53\<close> is rounded to a finite double
  with a relative error of at most \<open>2^-53\<close>.
\<close>

definition accurate :: "engine \<Rightarrow> bool" where
  "accurate js \<longleftrightarrow>
     (\<forall>n::int. \<bar>n\<bar> \<le> 2 ^ 53 \<longrightarrow> to_double js (of_int n) = Fin (of_int n))
     \<and> (\<forall>r. 1 \<le> \<bar>r\<bar> \<and> \<bar>r\<bar> \<le> 2 ^ 53
          \<longrightarrow> (\<exists>d. to_double js r = Fin d \<and> \<bar>d - r\<bar> \<le> \<bar>r\<bar> / 2 ^ 53))"

text \<open>
  An engine to run the definitions on: it does not round at all, and maps the letters
  \<open>a\<close> to \<open>z\<close> to \<open>A\<close> to \<open>Z\<close>, keeping every other character. It agrees with an
  engine of the language wherever every intermediate result is a double and the text is
  ASCII.
\<close>

definition upper_char :: "char \<Rightarrow> char" where
  "upper_char c =
     (let n = (of_char c :: nat) in if 97 \<le> n \<and> n \<le> 122 then char_of (n - 32) else c)"

definition ideal :: engine where
  "ideal = \<lparr>to_double = Fin, toUpperCase = map upper_char\<rparr>"

subsection \<open>Truthiness\<close>

text \<open>
  The planner tests optional fields with \<open>if (v)\<close> and \<open>v || d\<close>. A number is falsy
  when it is a zero or \<open>NaN\<close>, a string when it is empty, and \<open>undefined\<close> (a field
  that is absent: \<open>None\<close>) always.
\<close>

definition truthy_num :: "jsnum \<Rightarrow> bool" where
  "truthy_num x = (\<not> is_zero x \<and> x \<noteq> NaN)"

definition truthy_number :: "jsnum option \<Rightarrow> bool" where
  "truthy_number v = (case v of None \<Rightarrow> False | Some x \<Rightarrow> truthy_num x)"

definition truthy_string :: "string option \<Rightarrow> bool" where
  "truthy_string v = (case v of None \<Rightarrow> False | Some s \<Rightarrow> s \<noteq> [])"

text \<open>\<open>v || d\<close> on an optional string.\<close>

definition or_default :: "string option \<Rightarrow> string \<Rightarrow> string" where
  "or_default v d = (case v of None \<Rightarrow> d | Some s \<Rightarrow> if s \<noteq> [] then s else d)"

subsection \<open>Property lookup on a plain object\<close>

text \<open>
  \<open>recipes\<close> (the result of \<open>JSON.parse\<close>), \<open>layerMap\<close> (\<open>{}\<close>) and
  \<open>defaultDurations\<close> (an object literal) are plain objects, and \<open>obj[key]\<close> reads
  through the prototype chain: a key that is no own property of the object but names a
  member of \<open>Object.prototype\<close> yields that member (a function, or for \<open>__proto__\<close> the
  prototype object), which is truthy and has none of the properties of a table entry.
\<close>

definition object_prototype_keys :: "string list" where
  "object_prototype_keys =
     [''constructor'', ''__defineGetter__'', ''__defineSetter__'', ''hasOwnProperty'',
      ''__lookupGetter__'', ''__lookupSetter__'', ''isPrototypeOf'',
      ''propertyIsEnumerable'', ''toString'', ''valueOf'', ''__proto__'',
      ''toLocaleString'']"

text \<open>
  What \<open>obj[key]\<close> evaluates to: \<open>Own v\<close>, an entry of the table; \<open>Inherited\<close>, a
  truthy value found on the prototype chain; \<open>Absent\<close>, \<open>undefined\<close> (or a falsy
  value found on the chain).
\<close>

datatype 'a property = Own 'a | Inherited | Absent

definition js_get :: "(string \<rightharpoonup> 'a) \<Rightarrow> string \<Rightarrow> 'a property" where
  "js_get obj k =
     (case obj k of
        Some v \<Rightarrow> Own v
      | None \<Rightarrow> if k \<in> set object_prototype_keys then Inherited else Absent)"

section \<open>Data model\<close>

text \<open>
  The objects of the planner, with the fields the source reads and the types the data
  model of the specification gives them: a field the source may find missing is an
  \<open>option\<close>. A recipe or layout whose fields have other types (a string where a
  number is meant) is outside the model.
\<close>

text \<open>
  What a call can throw: \<open>new Error(message)\<close>, thrown by the source itself, and the
  \<open>TypeError\<close> of the language for a property read on \<open>undefined\<close>.
\<close>

datatype error = Error string | TypeError

text \<open>A layer of the layout; the field \<open>datatype\<close> of the source is \<open>gds_datatype\<close> here.\<close>

record Layer =
  number :: jsnum
  name :: string
  gds_datatype :: jsnum
  feature_count :: jsnum

record Units =
  database_unit :: jsnum
  user_unit :: jsnum

record BoundingBox =
  min_x :: jsnum
  min_y :: jsnum
  max_x :: jsnum
  max_y :: jsnum

record Layout =
  filename :: string
  layers :: "Layer list"
  feature_count :: jsnum
  units :: Units
  bounding_box :: BoundingBox

text \<open>A step of a recipe; the field \<open>method\<close> of the source is \<open>method'\<close> here.\<close>

record StepTemplate =
  step :: jsnum
  operation :: string
  description :: string
  layer :: "string option"
  material :: "string option"
  method' :: "string option"
  thickness_nm :: "jsnum option"
  temperature_c :: "jsnum option"
  duration_min :: "jsnum option"

record Recipe =
  name :: string
  technology_node :: "string option"
  application :: "string option"
  steps :: "StepTemplate list"

text \<open>
  \<open>{ ...step }\<close> with the fields \<open>mapLayersToSteps\<close> adds: a mapped step is a step
  template extended by them. \<open>layout_layer\<close> and \<open>feature_count\<close> are \<open>None\<close> both
  when the field was never set and when it was set to \<open>undefined\<close>.
\<close>

record MappedStep = StepTemplate +
  status :: string
  layout_layer :: "jsnum option"
  feature_count :: "jsnum option"
  warning :: "string option"

record ProcessFlow =
  name :: string
  process_type :: string
  technology_node :: string
  application :: string
  layout_file :: string
  layers_used :: nat
  steps :: "MappedStep list"
  total_steps :: nat
  estimated_duration_hours :: jsnum

section \<open>The layout provider\<close>

text \<open>
  The fixture \<open>parseGDS\<close> returns for every file that exists. Its units are the
  literals \<open>1e-9\<close> and \<open>1e-6\<close>, written here as the real numbers they stand for; the
  planner never reads them.
\<close>

definition mockLayout :: "string \<Rightarrow> Layout" where
  "mockLayout gdsFilePath =
     \<lparr>filename = gdsFilePath,
      layers =
        [\<lparr>number = Fin 1, Layer.name = ''ACTIVE'', gds_datatype = Fin 0, Layer.feature_count = Fin 150\<rparr>,
         \<lparr>number = Fin 2, Layer.name = ''POLY'', gds_datatype = Fin 0, Layer.feature_count = Fin 200\<rparr>,
         \<lparr>number = Fin 3, Layer.name = ''CONTACT'', gds_datatype = Fin 0, Layer.feature_count = Fin 300\<rparr>,
         \<lparr>number = Fin 4, Layer.name = ''METAL1'', gds_datatype = Fin 0, Layer.feature_count = Fin 180\<rparr>,
         \<lparr>number = Fin 5, Layer.name = ''VIA1'', gds_datatype = Fin 0, Layer.feature_count = Fin 120\<rparr>],
      Layout.feature_count = Fin 950,
      units = \<lparr>database_unit = Fin (1 / 10 ^ 9), user_unit = Fin (1 / 10 ^ 6)\<rparr>,
      bounding_box = \<lparr>min_x = Fin 0, min_y = Fin 0, max_x = Fin 1000, max_y = Fin 1000\<rparr>\<rparr>"

text \<open>\<open>parseGDS\<close>, the file system read as the answer of \<open>fs.existsSync\<close>.\<close>

definition parseGDS :: "bool \<Rightarrow> string \<Rightarrow> error + Layout" where
  "parseGDS file_exists gdsFilePath =
     (if \<not> file_exists then Inl (Error (''GDS file not found: '' @ gdsFilePath))
      else Inr (mockLayout gdsFilePath))"

section \<open>The process planner\<close>

subsection \<open>mapLayersToSteps\<close>

text \<open>
  \<open>layerMap\<close> starts as \<open>{}\<close> and is filled by \<open>layerMap[layer.name] = layer\<close>. The
  assignment creates or overwrites an own property, except for the name \<open>__proto__\<close>:
  that assignment runs the setter inherited from \<open>Object.prototype\<close> and makes the
  layer the prototype of \<open>layerMap\<close>. The state of the object is therefore its own
  properties and the layer installed as its prototype, if any.
\<close>

record LayerMap =
  own :: "string \<rightharpoonup> Layer"
  proto :: "Layer option"

definition empty_LayerMap :: LayerMap where
  "empty_LayerMap = \<lparr>own = Map.empty, proto = None\<rparr>"

definition layerMap_set :: "LayerMap \<Rightarrow> Layer \<Rightarrow> LayerMap" where
  "layerMap_set m l =
     (if Layer.name l = ''__proto__'' then m\<lparr>proto := Some l\<rparr>
      else m\<lparr>own := (own m)(Layer.name l \<mapsto> l)\<rparr>)"

text \<open>
  \<open>layerMap[k]\<close>: an own property first; then the properties of the layer installed as
  prototype (primitive values: truthy or not, and without a \<open>number\<close> of their own);
  then \<open>Object.prototype\<close>.
\<close>

definition inherited_if :: "bool \<Rightarrow> 'a property" where
  "inherited_if b = (if b then Inherited else Absent)"

definition layerMap_get :: "LayerMap \<Rightarrow> string \<Rightarrow> Layer property" where
  "layerMap_get m k =
     (case own m k of
        Some l \<Rightarrow> Own l
      | None \<Rightarrow>
         (case proto m of
            None \<Rightarrow> inherited_if (k \<in> set object_prototype_keys)
          | Some p \<Rightarrow>
              if k = ''__proto__'' then Own p
              else if k = ''number'' then inherited_if (truthy_num (number p))
              else if k = ''name'' then inherited_if (Layer.name p \<noteq> [])
              else if k = ''datatype'' then inherited_if (truthy_num (gds_datatype p))
              else if k = ''feature_count'' then inherited_if (truthy_num (Layer.feature_count p))
              else inherited_if (k \<in> set object_prototype_keys)))"

text \<open>The first loop: \<open>layout.layers.forEach(layer => { layerMap[layer.name] = layer; })\<close>.\<close>

definition build_layerMap :: "Layer list \<Rightarrow> LayerMap" where
  "build_layerMap ls = foldl layerMap_set empty_LayerMap ls"

text \<open>
  What the second loop does with \<open>layerMap[step.layer]\<close>: it tests the value for
  truthiness and reads its \<open>number\<close> and its \<open>feature_count\<close>, which only a layer
  has.
\<close>

fun truthy_property :: "'a property \<Rightarrow> bool" where
  "truthy_property (Own v) = True"
| "truthy_property Inherited = True"
| "truthy_property Absent = False"

fun number_of :: "Layer property \<Rightarrow> jsnum option" where
  "number_of (Own l) = Some (number l)"
| "number_of Inherited = None"
| "number_of Absent = None"

fun feature_count_of :: "Layer property \<Rightarrow> jsnum option" where
  "feature_count_of (Own l) = Some (Layer.feature_count l)"
| "feature_count_of Inherited = None"
| "feature_count_of Absent = None"

text \<open>The body of the second loop, for one step of the recipe.\<close>

definition mapStep :: "LayerMap \<Rightarrow> StepTemplate \<Rightarrow> MappedStep" where
  "mapStep layerMap st =
     (if truthy_string (layer st) \<and> truthy_property (layerMap_get layerMap (the (layer st))) then
        StepTemplate.extend st
          (MappedStep.fields ''matched''
             (number_of (layerMap_get layerMap (the (layer st))))
             (feature_count_of (layerMap_get layerMap (the (layer st))))
             None)
      else if truthy_string (layer st) then
        StepTemplate.extend st
          (MappedStep.fields ''layer_missing'' None None
             (Some (''Layer '' @ the (layer st) @ '' not found in layout'')))
      else
        StepTemplate.extend st (MappedStep.fields ''layer_independent'' None None None))"

text \<open>
  \<open>mapLayersToSteps(layout, recipe)\<close>, \<open>recipe\<close> being what \<open>recipes[processType]\<close>
  gave. The first loop runs in any case; \<open>recipe.steps.forEach\<close> then throws a
  \<open>TypeError\<close> when \<open>recipe\<close> is no recipe of the table, as \<open>recipe.steps\<close> is
  \<open>undefined\<close> for a member of \<open>Object.prototype\<close>.
\<close>

definition mapLayersToSteps :: "Layout \<Rightarrow> Recipe property \<Rightarrow> error + MappedStep list" where
  "mapLayersToSteps layout recipe =
     (let layerMap = build_layerMap (layers layout) in
      case recipe of
        Own r \<Rightarrow> Inr (map (mapStep layerMap) (Recipe.steps r))
      | Inherited \<Rightarrow> Inl TypeError
      | Absent \<Rightarrow> Inl TypeError)"

subsection \<open>calculateDuration\<close>

definition defaultDurations :: "string \<rightharpoonup> jsnum" where
  "defaultDurations =
     map_of
      [(''lithography'', Fin 2),
       (''etch'', Fin 1),
       (''deposition'', Fin 3),
       (''implantation'', Fin 2),
       (''thermal_oxidation'', Fin 3),
       (''cmp'', Fin (3 / 2)),
       (''metallization'', Fin 2),
       (''strip'', Fin (1 / 2)),
       (''wet_etch'', Fin (1 / 2))]"

text \<open>
  \<open>totalHours\<close> is a number as long as numbers are added to it. When
  \<open>defaultDurations[step.operation]\<close> is a member of \<open>Object.prototype\<close>, \<open>+=\<close> adds a
  function (or an object) to it, which makes it a string; every later \<open>+=\<close> appends to
  that string, and the string never reads as a number.
\<close>

datatype total = Hours jsnum | Text

fun add_hours :: "engine \<Rightarrow> total \<Rightarrow> jsnum \<Rightarrow> total" where
  "add_hours js (Hours h) x = Hours (js_add js h x)"
| "add_hours js Text x = Text"

text \<open>
  What one step adds to \<open>totalHours\<close>, the right-hand side of \<open>+=\<close> in either branch
  of the loop body: a number, or \<open>None\<close> when \<open>defaultDurations[step.operation]\<close> is
  a member of \<open>Object.prototype\<close>.
\<close>

definition addend :: "engine \<Rightarrow> 'a StepTemplate_scheme \<Rightarrow> jsnum option" where
  "addend js st =
     (if truthy_number (duration_min st) then
        Some (js_div js (the (duration_min st)) (Fin 60))
      else
        (case js_get defaultDurations (operation st) of
           Own d \<Rightarrow> Some (if truthy_num d then d else Fin 1)
         | Inherited \<Rightarrow> None
         | Absent \<Rightarrow> Some (Fin 1)))"

text \<open>The body of the loop of \<open>calculateDuration\<close>.\<close>

definition addStep :: "engine \<Rightarrow> total \<Rightarrow> 'a StepTemplate_scheme \<Rightarrow> total" where
  "addStep js totalHours st =
     (case addend js st of
        Some x \<Rightarrow> add_hours js totalHours x
      | None \<Rightarrow> Text)"

text \<open>\<open>totalHours\<close> after the loop.\<close>

definition sumHours :: "engine \<Rightarrow> 'a StepTemplate_scheme list \<Rightarrow> total" where
  "sumHours js sts = foldl (addStep js) (Hours (Fin 0)) sts"

text \<open>\<open>totalHours * 10\<close>, etc.: a string that is no numeral converts to \<open>NaN\<close>.\<close>

fun to_number :: "total \<Rightarrow> jsnum" where
  "to_number (Hours h) = h"
| "to_number Text = NaN"

text \<open>\<open>Math.round(x * 10) / 10\<close>\<close>

definition round1 :: "engine \<Rightarrow> jsnum \<Rightarrow> jsnum" where
  "round1 js x = js_div js (Math_round (js_mul js x (Fin 10))) (Fin 10)"

definition calculateDuration :: "engine \<Rightarrow> 'a StepTemplate_scheme list \<Rightarrow> jsnum" where
  "calculateDuration js sts = round1 js (to_number (sumHours js sts))"

subsection \<open>generateFlow\<close>

text \<open>
  The guard throws when \<open>recipes[processType]\<close> is falsy. Otherwise the value goes to
  \<open>mapLayersToSteps\<close>, whose exception, if any, leaves \<open>generateFlow\<close> as it is; the
  flow is assembled from the recipe after that (the last case below, a value that is no
  recipe after a successful mapping, cannot arise).
\<close>

definition generateFlow ::
  "engine \<Rightarrow> (string \<rightharpoonup> Recipe) \<Rightarrow> Layout \<Rightarrow> string \<Rightarrow> error + ProcessFlow" where
  "generateFlow js recipes layout processType =
     (if \<not> truthy_property (js_get recipes processType) then
        Inl (Error (''Unknown process type: '' @ processType))
      else
        let recipe = js_get recipes processType in
        case mapLayersToSteps layout recipe of
          Inl e \<Rightarrow> Inl e
        | Inr mappedSteps \<Rightarrow>
            let totalDuration = calculateDuration js mappedSteps in
            (case recipe of
               Own r \<Rightarrow>
                 Inr \<lparr>ProcessFlow.name = Recipe.name r,
                      process_type = processType,
                      ProcessFlow.technology_node = or_default (Recipe.technology_node r) ''N/A'',
                      ProcessFlow.application = or_default (Recipe.application r) ''General'',
                      layout_file = filename layout,
                      layers_used = length (layers layout),
                      ProcessFlow.steps = mappedSteps,
                      total_steps = length mappedSteps,
                      estimated_duration_hours = totalDuration\<rparr>
             | Inherited \<Rightarrow> Inl TypeError
             | Absent \<Rightarrow> Inl TypeError))"

text \<open>The default of the second parameter: \<open>processType = 'cmos_standard'\<close>.\<close>

definition generateFlow_default ::
  "engine \<Rightarrow> (string \<rightharpoonup> Recipe) \<Rightarrow> Layout \<Rightarrow> error + ProcessFlow" where
  "generateFlow_default js recipes layout = generateFlow js recipes layout ''cmos_standard''"

subsection \<open>analyzeLayout\<close>

text \<open>\<open>s.includes(t)\<close>: \<open>t\<close> occurs in \<open>s\<close> as a run of consecutive characters.\<close>

definition str_includes :: "string \<Rightarrow> string \<Rightarrow> bool" where
  "str_includes s t = sublist t s"

text \<open>\<open>estimateMinFeatureSize\<close>\<close>

definition estimateMinFeatureSize :: "engine \<Rightarrow> Layout \<Rightarrow> jsnum" where
  "estimateMinFeatureSize js layout =
     (let area = js_mul js (max_x (bounding_box layout)) (max_y (bounding_box layout));
          avgFeatureArea = js_div js area (Layout.feature_count layout)
      in js_div js (Math_round (js_mul js (Math_sqrt js avgFeatureArea) (Fin 10))) (Fin 10))"

record LayoutAnalysis =
  suggested_process :: string
  reason :: string
  complexity :: string
  min_feature_size :: jsnum
  layer_count :: nat
  feature_density :: jsnum

text \<open>
  The three variables \<open>suggestedProcess\<close>, \<open>reason\<close> and \<open>complexity\<close> after the
  \<open>if\<close> / \<open>else if\<close> chain of \<open>analyzeLayout\<close>, which starts from
  \<open>'cmos_standard'\<close>, \<open>'Default CMOS process'\<close> and \<open>'medium'\<close>.
\<close>

definition heuristics :: "string list \<Rightarrow> jsnum \<Rightarrow> string \<times> string \<times> string" where
  "heuristics layerNames featureCount =
     (if \<exists>name \<in> set layerNames. str_includes name ''CANTILEVER'' \<or> str_includes name ''MEMBRANE'' then
        (if \<exists>name \<in> set layerNames. str_includes name ''ELECTRODE'' then
           (''mems_cantilever'', ''Detected cantilever structures with electrodes'', ''high'')
         else
           (''mems_pressure_sensor'', ''Detected MEMS membrane structures'', ''high''))
      else if \<exists>name \<in> set layerNames. str_includes name ''WAVEGUIDE'' \<or> str_includes name ''GRATING'' then
        (''photonics_waveguide'', ''Detected photonic waveguide patterns'', ''high'')
      else if ''POLY'' \<in> set layerNames \<and> ''ACTIVE'' \<in> set layerNames then
        (''cmos_standard'', ''Standard CMOS layers detected (POLY, ACTIVE)'',
         if js_gt featureCount (Fin 1000) then ''high'' else ''medium'')
      else
        (''cmos_standard'', ''Default CMOS process'', ''medium''))"

definition analyzeLayout :: "engine \<Rightarrow> Layout \<Rightarrow> LayoutAnalysis" where
  "analyzeLayout js layout =
     (let layerNames = map (\<lambda>l. toUpperCase js (Layer.name l)) (layers layout);
          featureCount = Layout.feature_count layout;
          (suggestedProcess, reason', complexity') = heuristics layerNames featureCount;
          minFeatureSize = estimateMinFeatureSize js layout
      in \<lparr>suggested_process = suggestedProcess,
          reason = reason',
          complexity = complexity',
          min_feature_size = minFeatureSize,
          layer_count = length (layers layout),
          feature_density =
            js_div js featureCount
              (js_mul js (max_x (bounding_box layout)) (max_y (bounding_box layout)))\<rparr>)"

section \<open>The formatter\<close>

text \<open>
  Both renderers build one string by appending template literals. The model keeps the
  string as the list of its pieces, in order: \<open>Str s\<close> for literal text and for a string
  field, \<open>Num x\<close> for the decimal text of a number (\<open>Number::toString\<close>, which is not
  modelled). The rendered string is the concatenation of the pieces. Characters outside
  ASCII are given by their UTF-8 bytes. \<open>total_steps\<close>, a length, is a double as it is.
\<close>

datatype piece = Str string | Num jsnum

definition newline :: string where
  "newline = [CHR 0x0A]"

definition degree_sign :: string where
  "degree_sign = [CHR 0xC2, CHR 0xB0]"

definition warning_sign :: string where
  "warning_sign = [CHR 0xE2, CHR 0x9A, CHR 0xA0]"

definition warning_emoji :: string where
  "warning_emoji = [CHR 0xE2, CHR 0x9A, CHR 0xA0, CHR 0xEF, CHR 0xB8, CHR 0x8F]"

text \<open>The body of the loop of \<open>formatText\<close>.\<close>

definition formatText_step :: "engine \<Rightarrow> MappedStep \<Rightarrow> piece list" where
  "formatText_step js st =
     [Str ''Step '', Num (step st), Str '': '', Str (toUpperCase js (operation st)), Str newline]
     @ [Str ''  Description: '', Str (description st), Str newline]
     @ (if truthy_string (material st)
        then [Str ''  Material: '', Str (the (material st)), Str newline] else [])
     @ (if truthy_string (method' st)
        then [Str ''  Method: '', Str (the (method' st)), Str newline] else [])
     @ (if truthy_number (thickness_nm st)
        then [Str ''  Thickness: '', Num (the (thickness_nm st)), Str '' nm'', Str newline] else [])
     @ (if truthy_number (temperature_c st)
        then [Str ''  Temperature: '', Num (the (temperature_c st)), Str (degree_sign @ ''C''), Str newline]
        else [])
     @ (if truthy_string (layer st)
        then [Str ''  Mask Layer: '', Str (the (layer st)), Str newline] else [])
     @ (if truthy_string (warning st)
        then [Str (''  '' @ warning_sign @ '' WARNING: ''), Str (the (warning st)), Str newline] else [])
     @ [Str newline]"

definition formatText :: "engine \<Rightarrow> ProcessFlow \<Rightarrow> piece list" where
  "formatText js processFlow =
     [Str (replicate 60 CHR ''=''), Str newline,
      Str ''FABRICATION PROCESS FLOW'', Str newline,
      Str (replicate 60 CHR ''=''), Str (newline @ newline),
      Str ''Process: '', Str (ProcessFlow.name processFlow), Str newline,
      Str ''Type: '', Str (process_type processFlow), Str newline,
      Str ''Technology: '', Str (ProcessFlow.technology_node processFlow), Str newline,
      Str ''Application: '', Str (ProcessFlow.application processFlow), Str newline,
      Str ''Layout File: '', Str (layout_file processFlow), Str newline,
      Str ''Total Steps: '', Num (Fin (of_nat (total_steps processFlow))), Str newline,
      Str ''Estimated Duration: '', Num (estimated_duration_hours processFlow),
      Str ('' hours'' @ newline @ newline),
      Str (replicate 60 CHR ''-''), Str newline,
      Str ''PROCESS STEPS'', Str newline,
      Str (replicate 60 CHR ''-''), Str (newline @ newline)]
     @ concat (map (formatText_step js) (ProcessFlow.steps processFlow))"

text \<open>The body of the loop of \<open>formatMarkdown\<close>.\<close>

definition formatMarkdown_step :: "MappedStep \<Rightarrow> piece list" where
  "formatMarkdown_step st =
     [Str ''### Step '', Num (step st), Str '': '', Str (operation st), Str (newline @ newline)]
     @ [Str (description st), Str (newline @ newline)]
     @ (if truthy_string (material st) \<or> truthy_string (method' st)
           \<or> truthy_number (thickness_nm st) \<or> truthy_number (temperature_c st)
        then
          [Str ''**Parameters:**'', Str newline]
          @ (if truthy_string (material st)
             then [Str ''- Material: '', Str (the (material st)), Str newline] else [])
          @ (if truthy_string (method' st)
             then [Str ''- Method: '', Str (the (method' st)), Str newline] else [])
          @ (if truthy_number (thickness_nm st)
             then [Str ''- Thickness: '', Num (the (thickness_nm st)), Str '' nm'', Str newline] else [])
          @ (if truthy_number (temperature_c st)
             then [Str ''- Temperature: '', Num (the (temperature_c st)), Str (degree_sign @ ''C''),
                   Str newline]
             else [])
          @ (if truthy_string (layer st)
             then [Str ''- Mask Layer: '', Str (the (layer st)), Str newline] else [])
          @ [Str newline]
        else [])
     @ (if truthy_string (warning st)
        then [Str (''> '' @ warning_emoji @ '' **Warning**: ''), Str (the (warning st)),
              Str (newline @ newline)]
        else [])"

definition formatMarkdown :: "ProcessFlow \<Rightarrow> piece list" where
  "formatMarkdown processFlow =
     [Str ''# Fabrication Process Flow'', Str (newline @ newline),
      Str ''## Process Information'', Str (newline @ newline),
      Str ''- **Process**: '', Str (ProcessFlow.name processFlow), Str newline,
      Str ''- **Type**: '', Str (process_type processFlow), Str newline,
      Str ''- **Technology**: '', Str (ProcessFlow.technology_node processFlow), Str newline,
      Str ''- **Application**: '', Str (ProcessFlow.application processFlow), Str newline,
      Str ''- **Layout File**: '', Str (layout_file processFlow), Str newline,
      Str ''- **Total Steps**: '', Num (Fin (of_nat (total_steps processFlow))), Str newline,
      Str ''- **Estimated Duration**: '', Num (estimated_duration_hours processFlow),
      Str ('' hours'' @ newline @ newline),
      Str ''## Process Steps'', Str (newline @ newline)]
     @ concat (map formatMarkdown_step (ProcessFlow.steps processFlow))"

section \<open>The specification's wording\<close>

text \<open>
  The definitions of this section are not taken from the source: they write down what
  the specification says, to be compared with the planner above.
\<close>

subsection \<open>Duration of a step\<close>

text \<open>
  The fixed table of default durations, in hours, and one hour for any other operation.
\<close>

definition claimed_default_hours :: "string \<Rightarrow> jsnum" where
  "claimed_default_hours op =
     (if op = ''lithography'' then Fin 2
      else if op = ''etch'' then Fin 1
      else if op = ''deposition'' then Fin 3
      else if op = ''implantation'' then Fin 2
      else if op = ''thermal_oxidation'' then Fin 3
      else if op = ''cmp'' then Fin (3 / 2)
      else if op = ''metallization'' then Fin 2
      else if op = ''strip'' then Fin (1 / 2)
      else if op = ''wet_etch'' then Fin (1 / 2)
      else Fin 1)"

text \<open>
  As stated: \<open>duration_min / 60\<close> when \<open>duration_min\<close> is present, the default of the
  operation otherwise; the sum over the steps, rounded.
\<close>

definition claimed_step_hours :: "engine \<Rightarrow> 'a StepTemplate_scheme \<Rightarrow> jsnum" where
  "claimed_step_hours js st =
     (case duration_min st of
        Some d \<Rightarrow> js_div js d (Fin 60)
      | None \<Rightarrow> claimed_default_hours (operation st))"

definition claimed_duration :: "engine \<Rightarrow> 'a StepTemplate_scheme list \<Rightarrow> jsnum" where
  "claimed_duration js sts =
     round1 js (foldl (js_add js) (Fin 0) (map (claimed_step_hours js) sts))"

text \<open>
  As amended: \<open>duration_min / 60\<close> when \<open>duration_min\<close> is present and neither a zero
  nor \<open>NaN\<close>, the default of the operation otherwise; the sum over the steps, taken in
  their order from \<open>0\<close>, rounded.
\<close>

definition duration_given :: "'a StepTemplate_scheme \<Rightarrow> bool" where
  "duration_given st =
     (case duration_min st of
        Some d \<Rightarrow> d \<noteq> Fin 0 \<and> d \<noteq> NegZero \<and> d \<noteq> NaN
      | None \<Rightarrow> False)"

definition amended_step_hours :: "engine \<Rightarrow> 'a StepTemplate_scheme \<Rightarrow> jsnum" where
  "amended_step_hours js st =
     (if duration_given st then js_div js (the (duration_min st)) (Fin 60)
      else claimed_default_hours (operation st))"

definition amended_sum :: "engine \<Rightarrow> 'a StepTemplate_scheme list \<Rightarrow> jsnum" where
  "amended_sum js sts = foldl (js_add js) (Fin 0) (map (amended_step_hours js) sts)"

definition amended_duration :: "engine \<Rightarrow> 'a StepTemplate_scheme list \<Rightarrow> jsnum" where
  "amended_duration js sts = round1 js (amended_sum js sts)"

text \<open>
  Rounding to one decimal place, \<open>.5\<close> going up: \<open>n\<close> is the number of tenths for a sum
  whose tenfold is \<open>p\<close> when \<open>n\<close> is the integer nearest to \<open>p\<close>, the greater one of
  the two when \<open>p\<close> lies halfway between them.
\<close>

definition nearest_tie_up :: "real \<Rightarrow> int \<Rightarrow> bool" where
  "nearest_tie_up p n \<longleftrightarrow> of_int n - 1 / 2 \<le> p \<and> p < of_int n + 1 / 2"

subsection \<open>Rules of the layout analysis\<close>

text \<open>An ordered rule list, the first rule whose condition holds giving the outcome.\<close>

fun first_match :: "(bool \<times> 'a) list \<Rightarrow> 'a option" where
  "first_match [] = None"
| "first_match ((c, v) # rules) = (if c then Some v else first_match rules)"

text \<open>A feature count that exceeds a bound: a greater number, or \<open>Infinity\<close>.\<close>

fun exceeds :: "jsnum \<Rightarrow> real \<Rightarrow> bool" where
  "exceeds (Fin r) t = (t < r)"
| "exceeds NegZero t = (t < 0)"
| "exceeds PInf t = True"
| "exceeds NInf t = False"
| "exceeds NaN t = False"

text \<open>
  The four rules over the uppercased layer names and the feature count of the layout,
  each with its suggested process and its complexity.
\<close>

definition claimed_rules :: "string list \<Rightarrow> jsnum \<Rightarrow> (bool \<times> string \<times> string) list" where
  "claimed_rules names fc =
     [(\<exists>n \<in> set names. sublist ''CANTILEVER'' n \<or> sublist ''MEMBRANE'' n,
       if \<exists>n \<in> set names. sublist ''ELECTRODE'' n then ''mems_cantilever''
       else ''mems_pressure_sensor'',
       ''high''),
      (\<exists>n \<in> set names. sublist ''WAVEGUIDE'' n \<or> sublist ''GRATING'' n,
       ''photonics_waveguide'', ''high''),
      (''POLY'' \<in> set names \<and> ''ACTIVE'' \<in> set names,
       ''cmos_standard'', if exceeds fc 1000 then ''high'' else ''medium''),
      (True, ''cmos_standard'', ''medium'')]"

section \<open>Example data\<close>

text \<open>
  \<open>recipe_db.json\<close> is read at load time; the planner receives its content as the
  table \<open>recipes\<close>, a parameter of \<open>generateFlow\<close>. The table below is a small
  instance used to run the definitions: a recipe whose second step names a layer of the
  fixture, whose third names one the fixture lacks and has a zero \<open>duration_min\<close>.
\<close>

definition example_steps :: "StepTemplate list" where
  "example_steps =
     [\<lparr>step = Fin 1, operation = ''thermal_oxidation'', description = ''Grow pad oxide'',
       layer = None, material = Some ''SiO2'', method' = Some ''dry oxidation'',
       thickness_nm = Some (Fin 10), temperature_c = Some (Fin 900), duration_min = Some (Fin 30)\<rparr>,
      \<lparr>step = Fin 2, operation = ''lithography'', description = ''Pattern active area'',
       layer = Some ''ACTIVE'', material = None, method' = None,
       thickness_nm = None, temperature_c = None, duration_min = None\<rparr>,
      \<lparr>step = Fin 3, operation = ''etch'', description = ''Open second via level'',
       layer = Some ''VIA2'', material = None, method' = Some ''RIE'',
       thickness_nm = None, temperature_c = None, duration_min = Some (Fin 0)\<rparr>]"

definition example_recipe :: Recipe where
  "example_recipe =
     \<lparr>Recipe.name = ''Standard CMOS Process'', Recipe.technology_node = Some ''180nm'',
      Recipe.application = None, Recipe.steps = example_steps\<rparr>"

definition example_recipes :: "string \<rightharpoonup> Recipe" where
  "example_recipes = [''cmos_standard'' \<mapsto> example_recipe]"

text \<open>The etch step of the example, whose \<open>duration_min\<close> is \<open>0\<close>.\<close>

definition zero_duration_step :: StepTemplate where
  "zero_duration_step = example_steps ! 2"

text \<open>A step whose \<open>duration_min\<close> is \<open>Infinity\<close>, as \<open>JSON.parse\<close> reads \<open>1e999\<close>.\<close>

definition infinite_duration_step :: StepTemplate where
  "infinite_duration_step =
     \<lparr>step = Fin 1, operation = ''deposition'', description = ''Deposit oxide'',
      layer = None, material = Some ''SiO2'', method' = None,
      thickness_nm = None, temperature_c = None, duration_min = Some PInf\<rparr>"

definition etch_step :: StepTemplate where
  "etch_step =
     \<lparr>step = Fin 2, operation = ''etch'', description = ''Etch oxide'',
      layer = None, material = None, method' = None,
      thickness_nm = None, temperature_c = None, duration_min = None\<rparr>"

text \<open>A step that names the layer \<open>constructor\<close>, which no layer of the fixture is called.\<close>

definition inherited_layer_step :: StepTemplate where
  "inherited_layer_step =
     \<lparr>step = Fin 1, operation = ''lithography'', description = ''Pattern first mask'',
      layer = Some ''constructor'', material = None, method' = None,
      thickness_nm = None, temperature_c = None, duration_min = None\<rparr>"

text \<open>The fixture with no feature at all.\<close>

definition featureless_layout :: Layout where
  "featureless_layout = (mockLayout ''empty.gds'')\<lparr>Layout.feature_count := Fin 0\<rparr>"

text \<open>The fixture squeezed to zero width: the product \<open>max_x * max_y\<close> is zero.\<close>

definition flat_layout :: Layout where
  "flat_layout =
     (mockLayout ''flat.gds'')
       \<lparr>bounding_box := \<lparr>min_x = Fin 0, min_y = Fin 0, max_x = Fin 0, max_y = Fin 1000\<rparr>\<rparr>"

text \<open>
  A step whose operation is outside the table of default durations and whose
  \<open>duration_min\<close> is the negative zero.
\<close>

definition anneal_step :: StepTemplate where
  "anneal_step =
     \<lparr>step = Fin 4, operation = ''anneal'', description = ''Activate dopants'',
      layer = None, material = None, method' = Some ''RTA'',
      thickness_nm = None, temperature_c = Some (Fin 1000), duration_min = Some NegZero\<rparr>"

text \<open>A step of a quarter of an hour: two and a half tenths, a tie.\<close>

definition quarter_hour_step :: StepTemplate where
  "quarter_hour_step =
     \<lparr>step = Fin 1, operation = ''strip'', description = ''Strip resist'',
      layer = None, material = None, method' = Some ''O2 plasma'',
      thickness_nm = None, temperature_c = None, duration_min = Some (Fin 15)\<rparr>"

text \<open>
  A step whose \<open>duration_min\<close> is \<open>0\<close> and whose operation is called \<open>constructor\<close>.
\<close>

definition inherited_operation_step :: StepTemplate where
  "inherited_operation_step =
     \<lparr>step = Fin 1, operation = ''constructor'', description = ''Build the device'',
      layer = None, material = None, method' = None,
      thickness_nm = None, temperature_c = None, duration_min = Some (Fin 0)\<rparr>"

text \<open>A layout with layers of the given names and the given feature count.\<close>

definition named_layout :: "string list \<Rightarrow> jsnum \<Rightarrow> Layout" where
  "named_layout names fc =
     (mockLayout ''design.gds'')
       \<lparr>layers :=
          map (\<lambda>n. \<lparr>number = Fin 1, Layer.name = n, gds_datatype = Fin 0,
                      Layer.feature_count = Fin 1\<rparr>) names,
        Layout.feature_count := fc\<rparr>"

text \<open>
  A flow of one step: the lithography step of the example, mapped against the fixture.
  It names a layer and has no material, method, thickness or temperature.
\<close>

definition layer_only_step :: MappedStep where
  "layer_only_step = mapStep (build_layerMap (layers (mockLayout ''chip.gds''))) (example_steps ! 1)"

definition layer_only_flow :: ProcessFlow where
  "layer_only_flow =
     \<lparr>ProcessFlow.name = ''Standard CMOS Process'',
      process_type = ''cmos_standard'',
      ProcessFlow.technology_node = ''180nm'',
      ProcessFlow.application = ''General'',
      layout_file = ''chip.gds'',
      layers_used = 5,
      ProcessFlow.steps = [layer_only_step],
      total_steps = 1,
      estimated_duration_hours = Fin 2\<rparr>"

section \<open>Properties of the number model\<close>

lemma ideal_simps [simp]:
  "to_double ideal r = Fin r"
  "finite_result ideal neg r = signed_fin neg r"
  by (simp_all add: ideal_def finite_result_def signed_fin_def)


lemma js_less_right_never [simp]: "js_less x NInf = False" "js_less x NaN = False"
  by (cases x, simp_all)+

lemma js_less_left_never [simp]: "js_less PInf y = False" "js_less NaN y = False"
  by (cases y, simp_all)+



lemma js_less_zero_left: "is_zero z \<Longrightarrow> js_less z y = js_less (Fin 0) y"
  by (cases z; cases y) simp_all

lemma is_zero_signed_zero [simp]: "is_zero (signed_zero neg)"
  by (simp add: signed_zero_def)

lemma js_div_by_zero: "is_zero y \<Longrightarrow> nonfinite (js_div js x y)"
  by (cases x; cases y) (auto simp add: js_div_def signed_inf_def)

lemma Math_sqrt_nonfinite: "nonfinite x \<Longrightarrow> nonfinite (Math_sqrt js x)"
  by (cases x) simp_all

lemma round_scale_nonfinite:
  "nonfinite x \<Longrightarrow> nonfinite (js_div js (Math_round (js_mul js x (Fin 10))) (Fin 10))"
  by (cases x) (simp_all add: js_mul_def js_div_def signed_inf_def)

lemma round1_special [simp]:
  "round1 js NaN = NaN" "round1 js PInf = PInf" "round1 js NInf = NInf"
  by (simp_all add: round1_def js_mul_def js_div_def signed_inf_def)










section \<open>Properties of the planner\<close>

subsection \<open>Resolving the process type\<close>

text \<open>
  Every outcome of \<open>generateFlow\<close>: a flow for a key of the table, whatever the layout;
  the error \<open>Unknown process type\<close> for a name that is neither a key of the table nor a
  member of \<open>Object.prototype\<close>; a \<open>TypeError\<close> for the names in between.
\<close>

lemma generateFlow_outcomes:
  "generateFlow js recipes L P =
     (case recipes P of
        Some r \<Rightarrow>
          Inr \<lparr>ProcessFlow.name = Recipe.name r,
               process_type = P,
               ProcessFlow.technology_node = or_default (Recipe.technology_node r) ''N/A'',
               ProcessFlow.application = or_default (Recipe.application r) ''General'',
               layout_file = filename L,
               layers_used = length (layers L),
               ProcessFlow.steps = map (mapStep (build_layerMap (layers L))) (Recipe.steps r),
               total_steps = length (Recipe.steps r),
               estimated_duration_hours =
                 calculateDuration js (map (mapStep (build_layerMap (layers L))) (Recipe.steps r))\<rparr>
      | None \<Rightarrow>
          if P \<in> set object_prototype_keys then Inl TypeError
          else Inl (Error (''Unknown process type: '' @ P)))"
  by (simp add: generateFlow_def js_get_def mapLayersToSteps_def split: option.split)

text \<open>
  Claim C1. \<open>generateFlow\<close> is to fail with the unknown-process-type error exactly when
  the process type is no key of the recipe table. For the process type \<open>constructor\<close>,
  which is no key of the example table, the guard \<open>!recipes[processType]\<close> finds the
  inherited \<open>Object\<close> function and lets the call through; it then fails with a
  \<open>TypeError\<close> in \<open>mapLayersToSteps\<close>, not with the unknown-process-type error that a
  name such as \<open>no_such_process\<close> gets.
\<close>

theorem generateFlow_inherited_key:
  "example_recipes ''constructor'' = None
   \<and> generateFlow js example_recipes (mockLayout ''chip.gds'') ''constructor'' = Inl TypeError
   \<and> generateFlow js example_recipes (mockLayout ''chip.gds'') ''no_such_process''
       = Inl (Error ''Unknown process type: no_such_process'')"
  by (simp add: example_recipes_def generateFlow_def js_get_def object_prototype_keys_def
      mapLayersToSteps_def)

subsection \<open>Mapping layers to steps\<close>

text \<open>
  When no layer of the layout is called \<open>__proto__\<close>, the index holds, for every name,
  the last layer of that name.
\<close>

lemma foldl_layerMap_set:
  "''__proto__'' \<notin> Layer.name ` set ls \<Longrightarrow>
   foldl layerMap_set m ls
     = m\<lparr>own := own m ++ map_of (rev (map (\<lambda>l. (Layer.name l, l)) ls))\<rparr>"
proof (induction ls arbitrary: m)
  case Nil
  then show ?case by simp
next
  case (Cons l ls)
  from Cons.prems have n: "Layer.name l \<noteq> ''__proto__''"
    and r: "''__proto__'' \<notin> Layer.name ` set ls"
    by auto
  from n have s: "layerMap_set m l = m\<lparr>own := (own m)(Layer.name l \<mapsto> l)\<rparr>"
    by (simp add: layerMap_set_def)
  have "foldl layerMap_set m (l # ls) = foldl layerMap_set (layerMap_set m l) ls"
    by simp
  also have "\<dots> = (layerMap_set m l)
      \<lparr>own := own (layerMap_set m l) ++ map_of (rev (map (\<lambda>l. (Layer.name l, l)) ls))\<rparr>"
    using r by (rule Cons.IH)
  also have "\<dots> = m\<lparr>own := own m ++ map_of (rev (map (\<lambda>l. (Layer.name l, l)) (l # ls)))\<rparr>"
    by (simp add: s map_add_upd_left [symmetric] del: map_add_upd_left)
  finally show ?case .
qed

lemma build_layerMap_get:
  assumes "''__proto__'' \<notin> Layer.name ` set ls"
  shows "layerMap_get (build_layerMap ls) k =
     (case map_of (rev (map (\<lambda>l. (Layer.name l, l)) ls)) k of
        Some l \<Rightarrow> Own l
      | None \<Rightarrow> if k \<in> set object_prototype_keys then Inherited else Absent)"
  by (simp add: build_layerMap_def foldl_layerMap_set [OF assms] layerMap_get_def empty_LayerMap_def
      inherited_if_def split: option.split)

lemma map_of_rev_names:
  "map_of (rev (map (\<lambda>l. (Layer.name l, l)) ls)) k = None \<longleftrightarrow> k \<notin> Layer.name ` set ls"
  by (simp add: map_of_eq_None_iff image_image)

text \<open>
  Away from the names of \<open>Object.prototype\<close> the status of a mapped step is the one
  the specification describes.
\<close>

lemma mapStep_status:
  assumes "''__proto__'' \<notin> Layer.name ` set ls"
    and "\<forall>n. layer st = Some n \<longrightarrow> n \<notin> set object_prototype_keys"
  shows "status (mapStep (build_layerMap ls) st) =
     (if truthy_string (layer st) then
        (if the (layer st) \<in> Layer.name ` set ls then ''matched'' else ''layer_missing'')
      else ''layer_independent'')"
proof (cases "truthy_string (layer st)")
  case False
  then show ?thesis
    by (simp add: mapStep_def StepTemplate.defs MappedStep.defs)
next
  case True
  then obtain n where n: "layer st = Some n" "n \<noteq> []"
    by (auto simp add: truthy_string_def split: option.splits)
  with assms(2) have k: "n \<notin> set object_prototype_keys"
    by simp
  show ?thesis
  proof (cases "map_of (rev (map (\<lambda>l. (Layer.name l, l)) ls)) n")
    case None
    with True n k map_of_rev_names [of ls n] show ?thesis
      by (simp add: mapStep_def build_layerMap_get [OF assms(1)] StepTemplate.defs MappedStep.defs)
  next
    case (Some l)
    with True n k map_of_rev_names [of ls n] show ?thesis
      by (simp add: mapStep_def build_layerMap_get [OF assms(1)] StepTemplate.defs MappedStep.defs)
  qed
qed

text \<open>
  And so is what comes with the status: the number and the feature count of the last
  layer of that name for a matched step, the warning and nothing else for a missing
  layer, nothing for a step that names no layer.
\<close>

lemma mapStep_matched:
  assumes "''__proto__'' \<notin> Layer.name ` set ls"
    and "layer st = Some n" and "n \<noteq> []"
    and "map_of (rev (map (\<lambda>l. (Layer.name l, l)) ls)) n = Some l"
  shows "mapStep (build_layerMap ls) st
     = StepTemplate.extend st
         (MappedStep.fields ''matched'' (Some (number l)) (Some (Layer.feature_count l)) None)"
  using assms(2-4)
  by (simp add: mapStep_def build_layerMap_get [OF assms(1)] truthy_string_def)

lemma mapStep_layer_missing:
  assumes "''__proto__'' \<notin> Layer.name ` set ls"
    and "layer st = Some n" and "n \<noteq> []"
    and "n \<notin> Layer.name ` set ls" and "n \<notin> set object_prototype_keys"
  shows "mapStep (build_layerMap ls) st
     = StepTemplate.extend st
         (MappedStep.fields ''layer_missing'' None None
            (Some (''Layer '' @ n @ '' not found in layout'')))"
  using assms(2-5) map_of_rev_names [of ls n]
  by (simp add: mapStep_def build_layerMap_get [OF assms(1)] truthy_string_def)

lemma mapStep_layer_independent:
  assumes "\<not> truthy_string (layer st)"
  shows "mapStep m st
     = StepTemplate.extend st (MappedStep.fields ''layer_independent'' None None None)"
  using assms by (simp add: mapStep_def)

text \<open>
  Claim C2. The status of a mapped step is to be \<open>matched\<close> exactly when the template
  names a layer of the layout, and \<open>layer_missing\<close> when it names a layer the layout
  lacks. The step below names the layer \<open>constructor\<close>; no layer of the fixture has that
  name, yet \<open>layerMap[step.layer]\<close> finds the inherited \<open>Object\<close> function and the step
  comes out \<open>matched\<close>, with \<open>layout_layer\<close> and \<open>feature_count\<close> undefined and no
  warning.
\<close>

theorem mapStep_inherited_layer:
  "''constructor'' \<notin> set (map Layer.name (layers (mockLayout ''chip.gds'')))
   \<and> layer inherited_layer_step = Some ''constructor''
   \<and> mapStep (build_layerMap (layers (mockLayout ''chip.gds''))) inherited_layer_step
       = StepTemplate.extend inherited_layer_step (MappedStep.fields ''matched'' None None None)"
  by (simp add: mockLayout_def inherited_layer_step_def mapStep_def build_layerMap_def
      layerMap_set_def empty_LayerMap_def layerMap_get_def inherited_if_def truthy_string_def
      object_prototype_keys_def)

subsection \<open>Steps of the flow\<close>

lemma mapStep_truncate: "StepTemplate.truncate (mapStep m st) = st"
  by (simp add: mapStep_def StepTemplate.defs MappedStep.defs split: property.split)

lemma mapStep_fields:
  "step (mapStep m st) = step st"
  "operation (mapStep m st) = operation st"
  "description (mapStep m st) = description st"
  "layer (mapStep m st) = layer st"
  "material (mapStep m st) = material st"
  "method' (mapStep m st) = method' st"
  "thickness_nm (mapStep m st) = thickness_nm st"
  "temperature_c (mapStep m st) = temperature_c st"
  "duration_min (mapStep m st) = duration_min st"
  by (simp_all add: mapStep_def StepTemplate.defs MappedStep.defs split: property.split)

text \<open>
  Claim C4. For every layout \<open>L\<close> and every process type \<open>P\<close> that is a key of the
  recipe table, \<open>generateFlow\<close> returns a flow whose \<open>total_steps\<close> is the number of
  steps of the recipe; the \<open>i\<close>-th mapped step is made from the \<open>i\<close>-th step of the
  recipe (nothing reordered, nothing dropped), and it carries the template's
  \<open>operation\<close>, \<open>description\<close>, \<open>material\<close>, \<open>method\<close>, \<open>thickness_nm\<close>,
  \<open>temperature_c\<close>, \<open>duration_min\<close> and \<open>step\<close> unchanged: cut back to the fields of
  a template, it is the template.
\<close>

theorem generateFlow_steps:
  assumes "recipes P = Some r"
  shows "\<exists>flow. generateFlow js recipes L P = Inr flow
      \<and> total_steps flow = length (Recipe.steps r)
      \<and> length (ProcessFlow.steps flow) = length (Recipe.steps r)
      \<and> (\<forall>i < length (Recipe.steps r).
            ProcessFlow.steps flow ! i = mapStep (build_layerMap (layers L)) (Recipe.steps r ! i)
          \<and> StepTemplate.truncate (ProcessFlow.steps flow ! i) = Recipe.steps r ! i
          \<and> operation (ProcessFlow.steps flow ! i) = operation (Recipe.steps r ! i)
          \<and> description (ProcessFlow.steps flow ! i) = description (Recipe.steps r ! i)
          \<and> material (ProcessFlow.steps flow ! i) = material (Recipe.steps r ! i)
          \<and> method' (ProcessFlow.steps flow ! i) = method' (Recipe.steps r ! i)
          \<and> thickness_nm (ProcessFlow.steps flow ! i) = thickness_nm (Recipe.steps r ! i)
          \<and> temperature_c (ProcessFlow.steps flow ! i) = temperature_c (Recipe.steps r ! i)
          \<and> duration_min (ProcessFlow.steps flow ! i) = duration_min (Recipe.steps r ! i)
          \<and> step (ProcessFlow.steps flow ! i) = step (Recipe.steps r ! i))"
  using assms
  by (simp add: generateFlow_def js_get_def mapLayersToSteps_def mapStep_fields mapStep_truncate)

text \<open>The example recipe against the fixture: three steps, the third still the etch.\<close>

theorem generateFlow_steps_witness:
  "\<exists>flow. generateFlow ideal example_recipes (mockLayout ''chip.gds'') ''cmos_standard'' = Inr flow
      \<and> total_steps flow = 3
      \<and> operation (ProcessFlow.steps flow ! 2) = ''etch''"
proof -
  have r: "example_recipes ''cmos_standard'' = Some example_recipe"
    by (simp add: example_recipes_def)
  have n: "length (Recipe.steps example_recipe) = 3"
    by (simp add: example_recipe_def example_steps_def)
  have e: "operation (Recipe.steps example_recipe ! 2) = ''etch''"
    by (simp add: example_recipe_def example_steps_def)
  from generateFlow_steps
    [of example_recipes "''cmos_standard''" example_recipe ideal "mockLayout ''chip.gds''", OF r]
  obtain flow where
    f: "generateFlow ideal example_recipes (mockLayout ''chip.gds'') ''cmos_standard'' = Inr flow"
    and t: "total_steps flow = length (Recipe.steps example_recipe)"
    and a: "\<forall>i < length (Recipe.steps example_recipe).
          operation (ProcessFlow.steps flow ! i) = operation (Recipe.steps example_recipe ! i)"
    by blast
  from a n e have "operation (ProcessFlow.steps flow ! 2) = ''etch''"
    by simp
  with f t n show ?thesis
    by simp
qed

subsection \<open>Duration of a flow\<close>

lemma defaultDurations_Some:
  "defaultDurations op = Some d \<Longrightarrow> claimed_default_hours op = d \<and> truthy_num d"
  by (auto simp add: defaultDurations_def claimed_default_hours_def truthy_num_def split: if_splits)

lemma defaultDurations_None:
  "defaultDurations op = None \<Longrightarrow> claimed_default_hours op = Fin 1"
  by (auto simp add: defaultDurations_def claimed_default_hours_def split: if_splits)

lemma truthy_number_given: "truthy_number (duration_min st) = duration_given st"
proof (cases "duration_min st")
  case None
  then show ?thesis
    by (simp add: truthy_number_def duration_given_def)
next
  case (Some d)
  then show ?thesis
    by (cases d) (auto simp add: truthy_number_def duration_given_def truthy_num_def)
qed

lemma addend_amended:
  assumes "duration_given st \<or> operation st \<notin> set object_prototype_keys"
  shows "addend js st = Some (amended_step_hours js st)"
proof (cases "duration_given st")
  case True
  then show ?thesis
    by (simp add: addend_def amended_step_hours_def truthy_number_given)
next
  case False
  with assms have k: "operation st \<notin> set object_prototype_keys"
    by simp
  show ?thesis
  proof (cases "defaultDurations (operation st)")
    case None
    with False k show ?thesis
      by (simp add: addend_def amended_step_hours_def truthy_number_given js_get_def
          defaultDurations_None)
  next
    case (Some d)
    with False defaultDurations_Some [OF Some] show ?thesis
      by (simp add: addend_def amended_step_hours_def truthy_number_given js_get_def)
  qed
qed

lemma foldl_addStep_amended:
  "(\<forall>st \<in> set sts. duration_given st \<or> operation st \<notin> set object_prototype_keys)
   \<Longrightarrow> foldl (addStep js) (Hours h) sts
       = Hours (foldl (js_add js) h (map (amended_step_hours js) sts))"
  by (induction sts arbitrary: h) (simp_all add: addStep_def addend_amended)

lemma nearest_tie_up_floor: "nearest_tie_up p \<lfloor>p + 1 / 2\<rfloor>"
proof -
  have "of_int \<lfloor>p + 1 / 2\<rfloor> \<le> p + 1 / 2" and "p + 1 / 2 < of_int \<lfloor>p + 1 / 2\<rfloor> + 1"
    by linarith+
  then show ?thesis
    unfolding nearest_tie_up_def by linarith
qed

lemma nearest_tie_up_unique: "nearest_tie_up p n \<Longrightarrow> n = \<lfloor>p + 1 / 2\<rfloor>"
  by (simp add: nearest_tie_up_def) linarith

text \<open>
  Claim C3, as amended. The estimate is the sum, taken step by step from \<open>0\<close>, of
  \<open>duration_min / 60\<close> for a step whose \<open>duration_min\<close> is present and neither a zero
  nor \<open>NaN\<close>, and otherwise of the fixed default of the step's operation, one hour for an
  operation outside the table; the sum is rounded to one decimal place, a tie going up:
  when the tenfold of the sum is the finite number \<open>p\<close>, the estimate is \<open>n / 10\<close> for
  the integer \<open>n\<close> nearest to \<open>p\<close>. Every operation is that of the engine, on doubles.
  This is stated for flows in which no step is left to the default with an operation that
  names a member of \<open>Object.prototype\<close>.
\<close>

theorem calculateDuration_amended:
  assumes "\<forall>st \<in> set sts. duration_given st \<or> operation st \<notin> set object_prototype_keys"
  shows "calculateDuration js sts = amended_duration js sts
     \<and> (\<forall>p. js_mul js (amended_sum js sts) (Fin 10) = Fin p
          \<longrightarrow> (\<exists>n. nearest_tie_up p n
                \<and> calculateDuration js sts = js_div js (signed_fin (p < 0) (of_int n)) (Fin 10)))"
proof -
  from foldl_addStep_amended [OF assms, of js "Fin 0"]
  have s: "to_number (sumHours js sts) = amended_sum js sts"
    by (simp add: sumHours_def amended_sum_def)
  then have c: "calculateDuration js sts = amended_duration js sts"
    by (simp add: calculateDuration_def amended_duration_def)
  have "\<exists>n. nearest_tie_up p n
      \<and> calculateDuration js sts = js_div js (signed_fin (p < 0) (of_int n)) (Fin 10)"
    if "js_mul js (amended_sum js sts) (Fin 10) = Fin p" for p
  proof (intro exI conjI)
    show "nearest_tie_up p \<lfloor>p + 1 / 2\<rfloor>"
      by (rule nearest_tie_up_floor)
    show "calculateDuration js sts
        = js_div js (signed_fin (p < 0) (of_int \<lfloor>p + 1 / 2\<rfloor>)) (Fin 10)"
      using that by (simp add: calculateDuration_def s round1_def)
  qed
  with c show ?thesis
    by blast
qed

text \<open>
  The example recipe: half an hour, two hours and one hour. A step of a quarter of an
  hour alone: two and a half tenths, rounded up to three. Both are run on the engine
  that does not round; every number met is a double, but for the last quotient
  \<open>3 / 10\<close>, for which an engine of the language returns the nearest double.
\<close>

theorem calculateDuration_amended_witness:
  "calculateDuration ideal example_steps = amended_duration ideal example_steps
   \<and> amended_duration ideal example_steps = Fin (7 / 2)
   \<and> js_mul ideal (amended_sum ideal [quarter_hour_step]) (Fin 10) = Fin (5 / 2)
   \<and> nearest_tie_up (5 / 2) 3
   \<and> calculateDuration ideal [quarter_hour_step] = Fin (3 / 10)"
proof -
  have h: "\<forall>st \<in> set example_steps.
      duration_given st \<or> operation st \<notin> set object_prototype_keys"
    by (simp add: example_steps_def object_prototype_keys_def duration_given_def)
  have q: "\<forall>st \<in> set [quarter_hour_step].
      duration_given st \<or> operation st \<notin> set object_prototype_keys"
    by (simp add: quarter_hour_step_def duration_given_def)
  have v: "amended_duration ideal example_steps = Fin (7 / 2)"
    by (simp add: example_steps_def amended_duration_def amended_sum_def amended_step_hours_def
        duration_given_def claimed_default_hours_def round1_def js_mul_def js_div_def js_add_def
        signed_fin_def signed_zero_def)
  have p: "js_mul ideal (amended_sum ideal [quarter_hour_step]) (Fin 10) = Fin (5 / 2)"
    by (simp add: quarter_hour_step_def amended_sum_def amended_step_hours_def duration_given_def
        js_mul_def js_div_def js_add_def signed_fin_def signed_zero_def)
  have t: "nearest_tie_up (5 / 2) 3"
    by (simp add: nearest_tie_up_def)
  from calculateDuration_amended [OF h] have c:
    "calculateDuration ideal example_steps = amended_duration ideal example_steps"
    by blast
  from calculateDuration_amended [OF q, of ideal] p obtain n where
    n: "nearest_tie_up (5 / 2) n"
    and r: "calculateDuration ideal [quarter_hour_step]
        = js_div ideal (signed_fin (5 / 2 < (0::real)) (of_int n)) (Fin 10)"
    by blast
  from n have "n = 3"
    by (simp add: nearest_tie_up_def)
  with r have "calculateDuration ideal [quarter_hour_step] = Fin (3 / 10)"
    by (simp add: js_div_def signed_fin_def)
  with c v p t show ?thesis
    by blast
qed

text \<open>
  Claim C3, as stated, fails on an etch step whose \<open>duration_min\<close> is \<open>0\<close>: the field is
  present, so the step should add \<open>0 / 60\<close> hours, but the planner adds the default of
  one hour.
\<close>

theorem claimed_duration_counterexample:
  "duration_min zero_duration_step = Some (Fin 0) \<and> operation zero_duration_step = ''etch''
   \<and> calculateDuration ideal [zero_duration_step] = Fin 1
   \<and> claimed_duration ideal [zero_duration_step] = Fin 0"
  by (simp add: zero_duration_step_def example_steps_def calculateDuration_def sumHours_def addStep_def
      addend_def truthy_number_def truthy_num_def js_get_def defaultDurations_def round1_def js_mul_def
      js_div_def js_add_def signed_fin_def signed_zero_def claimed_duration_def claimed_step_hours_def)

text \<open>
  A step whose \<open>duration_min\<close> is present and zero is treated like the same step without
  \<open>duration_min\<close>, at any place of any flow and under any engine. Where the table has a
  default for its operation it adds that default, and for an operation that is neither
  in the table nor a member of \<open>Object.prototype\<close> it adds one hour.
\<close>

lemma addStep_zero_duration:
  "is_zero z \<Longrightarrow>
   addStep js t (st\<lparr>duration_min := Some z\<rparr>) = addStep js t (st\<lparr>duration_min := None\<rparr>)"
  by (simp add: addStep_def addend_def truthy_number_def truthy_num_def)

lemma calculateDuration_zero_duration:
  assumes "is_zero z"
  shows "calculateDuration js (pre @ [st\<lparr>duration_min := Some z\<rparr>] @ post)
       = calculateDuration js (pre @ [st\<lparr>duration_min := None\<rparr>] @ post)"
  by (simp add: calculateDuration_def sumHours_def addStep_zero_duration [OF assms])

lemma addStep_zero_duration_default:
  assumes "is_zero z" and "defaultDurations (operation st) = Some d"
  shows "addStep js (Hours h) (st\<lparr>duration_min := Some z\<rparr>) = Hours (js_add js h d)"
  using assms defaultDurations_Some [OF assms(2)]
  by (simp add: addStep_def addend_def js_get_def truthy_number_def truthy_num_def)

lemma addStep_zero_duration_fallback:
  assumes "is_zero z" and "defaultDurations (operation st) = None"
    and "operation st \<notin> set object_prototype_keys"
  shows "addStep js (Hours h) (st\<lparr>duration_min := Some z\<rparr>) = Hours (js_add js h (Fin 1))"
  using assms
  by (simp add: addStep_def addend_def js_get_def truthy_number_def truthy_num_def)

text \<open>
  The etch step of the example after two hours, with \<open>duration_min\<close> zero: the total is
  three hours, as it is for a step whose operation is outside the table and whose
  \<open>duration_min\<close> is the negative zero.
\<close>

lemma zero_duration_examples:
  "addStep ideal (Hours (Fin 2)) zero_duration_step = Hours (Fin 3)
   \<and> addStep ideal (Hours (Fin 2)) (zero_duration_step\<lparr>duration_min := None\<rparr>) = Hours (Fin 3)
   \<and> addStep ideal (Hours (Fin 2)) anneal_step = Hours (Fin 3)
   \<and> calculateDuration ideal [example_steps ! 0, zero_duration_step, etch_step] = Fin (5 / 2)"
  by (simp add: zero_duration_step_def example_steps_def anneal_step_def etch_step_def
      addStep_def addend_def truthy_number_def truthy_num_def js_get_def defaultDurations_def
      object_prototype_keys_def calculateDuration_def sumHours_def round1_def js_add_def
      js_div_def js_mul_def signed_fin_def signed_zero_def ideal_def finite_result_def)

text \<open>
  Claim C10. A step whose \<open>duration_min\<close> is \<open>0\<close> is to add the default of its operation,
  or the fallback of one hour. The step below has \<open>duration_min\<close> \<open>0\<close> and the operation
  \<open>constructor\<close>, for which the table has no default. The planner does not add one hour:
  \<open>defaultDurations[step.operation]\<close> finds the inherited \<open>Object\<close> function, \<open>|| 1\<close> keeps
  it, \<open>+=\<close> turns the total into a string, and the estimate of the flow is \<open>NaN\<close>.
\<close>

theorem zero_duration_inherited_operation:
  "duration_min inherited_operation_step = Some (Fin 0)
   \<and> operation inherited_operation_step = ''constructor''
   \<and> defaultDurations ''constructor'' = None
   \<and> addStep js (Hours h) inherited_operation_step = Text
   \<and> addStep js (Hours h) inherited_operation_step \<noteq> Hours (js_add js h (Fin 1))
   \<and> calculateDuration js [inherited_operation_step] = NaN
   \<and> calculateDuration js [inherited_operation_step] \<noteq> Fin 1"
  by (simp add: inherited_operation_step_def defaultDurations_def addStep_def addend_def
      truthy_number_def truthy_num_def js_get_def object_prototype_keys_def calculateDuration_def
      sumHours_def)






text \<open>
  A sum that is \<open>Infinity\<close> stays \<open>Infinity\<close> when an hour is added, under any engine.
\<close>

lemma infinite_sum_stays:
  "addend js etch_step = Some (Fin 1)
   \<and> sumHours js [infinite_duration_step] = Hours PInf
   \<and> sumHours js ([infinite_duration_step] @ [etch_step]) = Hours PInf"
  by (simp add: etch_step_def infinite_duration_step_def sumHours_def addStep_def addend_def
      truthy_number_def truthy_num_def js_get_def defaultDurations_def js_div_def js_add_def
      signed_inf_def)


section \<open>Properties of the layout analysis\<close>

text \<open>\<open>s.includes(t)\<close> holds when \<open>s\<close> is some text, then \<open>t\<close>, then some text.\<close>

lemma str_includes_iff: "str_includes s t \<longleftrightarrow> (\<exists>before after. s = before @ t @ after)"
  by (simp add: str_includes_def sublist_def)

lemma analyzeLayout_heuristics:
  "suggested_process (analyzeLayout js L)
     = fst (heuristics (map (\<lambda>l. toUpperCase js (Layer.name l)) (layers L))
         (Layout.feature_count L))"
  "complexity (analyzeLayout js L)
     = snd (snd (heuristics (map (\<lambda>l. toUpperCase js (Layer.name l)) (layers L))
         (Layout.feature_count L)))"
  by (simp_all add: analyzeLayout_def Let_def split: prod.split)

lemma analyzeLayout_metrics:
  "min_feature_size (analyzeLayout js L) = estimateMinFeatureSize js L"
  "feature_density (analyzeLayout js L)
     = js_div js (Layout.feature_count L)
         (js_mul js (max_x (bounding_box L)) (max_y (bounding_box L)))"
  by (simp_all add: analyzeLayout_def Let_def split: prod.split)

text \<open>\<open>featureCount > 1000\<close> holds of a greater number and of \<open>Infinity\<close> only.\<close>

lemma js_gt_1000: "js_gt x (Fin 1000) = exceeds x 1000"
  by (cases x) (simp_all add: js_gt_def)

lemma heuristics_first_match:
  "first_match (claimed_rules names fc)
     = Some (fst (heuristics names fc), snd (snd (heuristics names fc)))"
  by (simp add: claimed_rules_def heuristics_def str_includes_def js_gt_1000)

lemma heuristics_not_low: "snd (snd (heuristics names fc)) \<noteq> ''low''"
  by (simp add: heuristics_def)

text \<open>
  Claim C5. The suggested process and the complexity that \<open>analyzeLayout\<close> returns are
  the outcome of the first matching rule of the ordered list, evaluated on the layer
  names as the engine uppercases them: a name containing \<open>CANTILEVER\<close> or \<open>MEMBRANE\<close>
  (\<open>mems_cantilever\<close> if some name contains \<open>ELECTRODE\<close>, else
  \<open>mems_pressure_sensor\<close>; \<open>high\<close>); else a name containing \<open>WAVEGUIDE\<close> or
  \<open>GRATING\<close> (\<open>photonics_waveguide\<close>, \<open>high\<close>); else both \<open>POLY\<close> and \<open>ACTIVE\<close>
  among the names (\<open>cmos_standard\<close>; \<open>high\<close> if the feature count of the layout
  exceeds 1000, else \<open>medium\<close>); else \<open>cmos_standard\<close>, \<open>medium\<close>. The complexity is
  never \<open>low\<close>.
\<close>

theorem analyzeLayout_first_match:
  "first_match (claimed_rules (map (\<lambda>l. toUpperCase js (Layer.name l)) (layers L))
       (Layout.feature_count L))
     = Some (suggested_process (analyzeLayout js L), complexity (analyzeLayout js L))
   \<and> complexity (analyzeLayout js L) \<noteq> ''low''"
  by (simp add: heuristics_first_match analyzeLayout_heuristics heuristics_not_low)

text \<open>
  Layouts that tell the rules apart, with names in lower or mixed case: the first rule
  with and without an electrode; a poly and an active layer that the first rule takes
  because of a membrane; the second rule; the third rule with 1500, with 1001, with 1000
  and with the 950 features of the fixture; and names that contain \<open>POLY\<close> and \<open>ACTIVE\<close>
  without being them, left to the last rule.
\<close>

theorem analyzeLayout_first_match_witness:
  "(suggested_process (analyzeLayout ideal (named_layout [''cantilever_beam'', ''top_electrode''] (Fin 10))),
    complexity (analyzeLayout ideal (named_layout [''cantilever_beam'', ''top_electrode''] (Fin 10))))
     = (''mems_cantilever'', ''high'')
   \<and> (suggested_process (analyzeLayout ideal (named_layout [''poly'', ''active'', ''Membrane''] (Fin 10))),
      complexity (analyzeLayout ideal (named_layout [''poly'', ''active'', ''Membrane''] (Fin 10))))
     = (''mems_pressure_sensor'', ''high'')
   \<and> (suggested_process (analyzeLayout ideal (named_layout [''poly'', ''waveguide_core''] (Fin 10))),
      complexity (analyzeLayout ideal (named_layout [''poly'', ''waveguide_core''] (Fin 10))))
     = (''photonics_waveguide'', ''high'')
   \<and> (suggested_process (analyzeLayout ideal (named_layout [''poly'', ''active''] (Fin 1500))),
      complexity (analyzeLayout ideal (named_layout [''poly'', ''active''] (Fin 1500))))
     = (''cmos_standard'', ''high'')
   \<and> complexity (analyzeLayout ideal (named_layout [''Poly'', ''Active''] (Fin 1001))) = ''high''
   \<and> complexity (analyzeLayout ideal (named_layout [''Poly'', ''Active''] (Fin 1000))) = ''medium''
   \<and> (suggested_process (analyzeLayout ideal (mockLayout ''chip.gds'')),
      complexity (analyzeLayout ideal (mockLayout ''chip.gds'')))
     = (''cmos_standard'', ''medium'')
   \<and> (suggested_process (analyzeLayout ideal (named_layout [''poly1'', ''active''] (Fin 1500))),
      complexity (analyzeLayout ideal (named_layout [''poly1'', ''active''] (Fin 1500))))
     = (''cmos_standard'', ''medium'')"
proof -
  have a: "first_match (claimed_rules
      (map (\<lambda>l. toUpperCase ideal (Layer.name l))
         (layers (named_layout [''cantilever_beam'', ''top_electrode''] (Fin 10))))
      (Layout.feature_count (named_layout [''cantilever_beam'', ''top_electrode''] (Fin 10))))
    = Some (''mems_cantilever'', ''high'')"
    by code_simp
  have b: "first_match (claimed_rules
      (map (\<lambda>l. toUpperCase ideal (Layer.name l))
         (layers (named_layout [''poly'', ''active'', ''Membrane''] (Fin 10))))
      (Layout.feature_count (named_layout [''poly'', ''active'', ''Membrane''] (Fin 10))))
    = Some (''mems_pressure_sensor'', ''high'')"
    by code_simp
  have c: "first_match (claimed_rules
      (map (\<lambda>l. toUpperCase ideal (Layer.name l))
         (layers (named_layout [''poly'', ''waveguide_core''] (Fin 10))))
      (Layout.feature_count (named_layout [''poly'', ''waveguide_core''] (Fin 10))))
    = Some (''photonics_waveguide'', ''high'')"
    by code_simp
  have d: "first_match (claimed_rules
      (map (\<lambda>l. toUpperCase ideal (Layer.name l))
         (layers (named_layout [''poly'', ''active''] (Fin 1500))))
      (Layout.feature_count (named_layout [''poly'', ''active''] (Fin 1500))))
    = Some (''cmos_standard'', ''high'')"
    by code_simp
  have e: "first_match (claimed_rules
      (map (\<lambda>l. toUpperCase ideal (Layer.name l))
         (layers (named_layout [''Poly'', ''Active''] (Fin 1001))))
      (Layout.feature_count (named_layout [''Poly'', ''Active''] (Fin 1001))))
    = Some (''cmos_standard'', ''high'')"
    by code_simp
  have f: "first_match (claimed_rules
      (map (\<lambda>l. toUpperCase ideal (Layer.name l))
         (layers (named_layout [''Poly'', ''Active''] (Fin 1000))))
      (Layout.feature_count (named_layout [''Poly'', ''Active''] (Fin 1000))))
    = Some (''cmos_standard'', ''medium'')"
    by code_simp
  have g: "first_match (claimed_rules
      (map (\<lambda>l. toUpperCase ideal (Layer.name l)) (layers (mockLayout ''chip.gds'')))
      (Layout.feature_count (mockLayout ''chip.gds'')))
    = Some (''cmos_standard'', ''medium'')"
    by code_simp
  have h: "first_match (claimed_rules
      (map (\<lambda>l. toUpperCase ideal (Layer.name l))
         (layers (named_layout [''poly1'', ''active''] (Fin 1500))))
      (Layout.feature_count (named_layout [''poly1'', ''active''] (Fin 1500))))
    = Some (''cmos_standard'', ''medium'')"
    by code_simp
  from analyzeLayout_first_match [of ideal "named_layout [''cantilever_beam'', ''top_electrode''] (Fin 10)"]
    analyzeLayout_first_match [of ideal "named_layout [''poly'', ''active'', ''Membrane''] (Fin 10)"]
    analyzeLayout_first_match [of ideal "named_layout [''poly'', ''waveguide_core''] (Fin 10)"]
    analyzeLayout_first_match [of ideal "named_layout [''poly'', ''active''] (Fin 1500)"]
    analyzeLayout_first_match [of ideal "named_layout [''Poly'', ''Active''] (Fin 1001)"]
    analyzeLayout_first_match [of ideal "named_layout [''Poly'', ''Active''] (Fin 1000)"]
    analyzeLayout_first_match [of ideal "mockLayout ''chip.gds''"]
    analyzeLayout_first_match [of ideal "named_layout [''poly1'', ''active''] (Fin 1500)"]
    a b c d e f g h
  show ?thesis
    by simp
qed

text \<open>
  The value for the fixture. Its area is the integer \<open>1000000\<close>; the quotient by 950,
  its square root and the tenfold of the root are rounded, each with a relative error of
  at most \<open>2^-53\<close>, which leaves the tenfold of the root between 324.4 and 324.5, so
  \<open>Math.round\<close> gives 324 and the result is the double for \<open>324 / 10\<close>.
\<close>

lemma accurate_ideal: "accurate ideal"
  by (simp add: accurate_def)

lemma accurate_integer:
  "accurate js \<Longrightarrow> \<bar>n\<bar> \<le> 2 ^ 53 \<Longrightarrow> finite_result js neg (of_int n) = signed_fin neg (of_int n)"
  by (simp add: accurate_def finite_result_def signed_fin_def)

lemma accurate_finite_result:
  assumes "accurate js" and "1 \<le> r" and "r \<le> 4096"
  shows "\<exists>d. finite_result js neg r = Fin d \<and> to_double js r = Fin d
      \<and> \<bar>d - r\<bar> \<le> 1 / 1000000"
proof -
  from assms have "1 \<le> \<bar>r\<bar> \<and> \<bar>r\<bar> \<le> 2 ^ 53"
    by simp
  with assms(1) obtain d where d: "to_double js r = Fin d" "\<bar>d - r\<bar> \<le> \<bar>r\<bar> / 2 ^ 53"
    unfolding accurate_def by blast
  from assms have "\<bar>r\<bar> / 2 ^ 53 \<le> 1 / 1000000"
    by simp
  with d have e: "\<bar>d - r\<bar> \<le> 1 / 1000000"
    by linarith
  with assms have "d \<noteq> 0" and "r \<noteq> 0"
    by linarith+
  with d e show ?thesis
    by (simp add: finite_result_def)
qed

lemma sqrt_bounds:
  assumes "10526 / 10 \<le> q" and "q \<le> 10527 / 10"
  shows "32443 / 1000 \<le> sqrt q" and "sqrt q \<le> 32446 / 1000"
proof -
  have "(32443 / 1000)\<^sup>2 \<le> (10526 / 10 :: real)"
    by (simp add: power2_eq_square)
  with assms have "(32443 / 1000)\<^sup>2 \<le> q"
    by linarith
  then show "32443 / 1000 \<le> sqrt q"
    by (rule real_le_rsqrt)
  have "(10527 / 10 :: real) \<le> (32446 / 1000)\<^sup>2"
    by (simp add: power2_eq_square)
  with assms have "q \<le> (32446 / 1000)\<^sup>2"
    by linarith
  then show "sqrt q \<le> 32446 / 1000"
    by (intro real_le_lsqrt) simp_all
qed

lemma mock_min_feature_size:
  assumes "accurate js"
  shows "estimateMinFeatureSize js (mockLayout f) = to_double js (324 / 10)"
proof -
  from accurate_integer [OF assms, of 1000000 False]
  have a: "js_mul js (Fin 1000) (Fin 1000) = Fin 1000000"
    by (simp add: js_mul_def signed_fin_def)
  have "(1::real) \<le> 1000000 / 950" and "(1000000 / 950 :: real) \<le> 4096"
    by simp_all
  from accurate_finite_result [OF assms this, of False]
  obtain q where q: "finite_result js False (1000000 / 950) = Fin q"
    "\<bar>q - 1000000 / 950\<bar> \<le> 1 / 1000000"
    by blast
  then have qb: "10526 / 10 \<le> q" "q \<le> 10527 / 10"
    by linarith+
  from q have b: "js_div js (Fin 1000000) (Fin 950) = Fin q"
    by (simp add: js_div_def)
  note sb = sqrt_bounds [OF qb]
  from sb have "1 \<le> sqrt q" and "sqrt q \<le> 4096"
    by linarith+
  from accurate_finite_result [OF assms this, of False]
  obtain s where s: "finite_result js False (sqrt q) = Fin s" "\<bar>s - sqrt q\<bar> \<le> 1 / 1000000"
    by blast
  with sb have sr: "32442 / 1000 \<le> s" "s \<le> 32447 / 1000"
    by linarith+
  from s qb have c: "Math_sqrt js (Fin q) = Fin s"
    by simp
  from sr have "1 \<le> s * 10" and "s * 10 \<le> 4096"
    by linarith+
  from accurate_finite_result [OF assms this, of False]
  obtain p where p: "finite_result js False (s * 10) = Fin p" "\<bar>p - s * 10\<bar> \<le> 1 / 1000000"
    by blast
  with sr have pr: "3244 / 10 \<le> p" "p < 3245 / 10"
    by linarith+
  from p sr have d: "js_mul js (Fin s) (Fin 10) = Fin p"
    by (simp add: js_mul_def)
  from pr have "\<lfloor>p + 1 / 2\<rfloor> = 324"
    by (simp add: floor_eq_iff)
  with pr have e: "Math_round (Fin p) = Fin 324"
    by (simp add: signed_fin_def)
  have "(1::real) \<le> 324 / 10" and "(324 / 10 :: real) \<le> 4096"
    by simp_all
  from accurate_finite_result [OF assms this, of False]
  have "finite_result js False (324 / 10) = to_double js (324 / 10)"
    by auto
  then have g: "js_div js (Fin 324) (Fin 10) = to_double js (324 / 10)"
    by (simp add: js_div_def)
  from a b c d e g show ?thesis
    by (simp add: estimateMinFeatureSize_def mockLayout_def)
qed

text \<open>
  Claim C6. \<open>min_feature_size\<close> is \<open>round(sqrt((max_x * max_y) / feature_count) * 10) / 10\<close>
  and \<open>feature_density\<close> is \<open>feature_count / (max_x * max_y)\<close>, each operation that of
  the engine; neither reads \<open>min_x\<close> or \<open>min_y\<close>, so the analysis is the same whatever
  they are. For the fixture (950 features, bounding box from (0, 0) to (1000, 1000))
  \<open>min_feature_size\<close> is 32.4: the double for \<open>324 / 10\<close> under an engine that rounds
  as accurately as rounding to the nearest double does, and \<open>324 / 10\<close> itself under
  the engine that does not round.
\<close>

theorem analyzeLayout_uses_max_only:
  "min_feature_size (analyzeLayout js L)
     = js_div js (Math_round (js_mul js (Math_sqrt js
         (js_div js (js_mul js (max_x (bounding_box L)) (max_y (bounding_box L)))
            (Layout.feature_count L)))
         (Fin 10))) (Fin 10)
   \<and> feature_density (analyzeLayout js L)
     = js_div js (Layout.feature_count L)
         (js_mul js (max_x (bounding_box L)) (max_y (bounding_box L)))
   \<and> analyzeLayout js (L\<lparr>bounding_box := (bounding_box L)\<lparr>min_x := a, min_y := b\<rparr>\<rparr>)
     = analyzeLayout js L
   \<and> (accurate js \<longrightarrow> min_feature_size (analyzeLayout js (mockLayout f)) = to_double js (324 / 10))
   \<and> min_feature_size (analyzeLayout ideal (mockLayout f)) = Fin (324 / 10)"
  using mock_min_feature_size [of js f] mock_min_feature_size [OF accurate_ideal, of f]
  by (simp add: analyzeLayout_metrics) (simp add: analyzeLayout_def estimateMinFeatureSize_def Let_def)

text \<open>The fixture, and the fixture with its lower left corner moved to (500, 500).\<close>

theorem analyzeLayout_uses_max_only_witness:
  "accurate ideal
   \<and> min_feature_size (analyzeLayout ideal (mockLayout ''chip.gds'')) = to_double ideal (324 / 10)
   \<and> min_feature_size (analyzeLayout ideal (mockLayout ''chip.gds'')) = Fin (324 / 10)
   \<and> Layout.feature_count (mockLayout ''chip.gds'') = Fin 950
   \<and> bounding_box (mockLayout ''chip.gds'')
       = \<lparr>min_x = Fin 0, min_y = Fin 0, max_x = Fin 1000, max_y = Fin 1000\<rparr>
   \<and> analyzeLayout ideal ((mockLayout ''chip.gds'')
         \<lparr>bounding_box := \<lparr>min_x = Fin 500, min_y = Fin 500, max_x = Fin 1000, max_y = Fin 1000\<rparr>\<rparr>)
       = analyzeLayout ideal (mockLayout ''chip.gds'')"
proof -
  note t = analyzeLayout_uses_max_only
    [of ideal "mockLayout ''chip.gds''" "Fin 500" "Fin 500" "''chip.gds''"]
  have b: "(bounding_box (mockLayout ''chip.gds''))\<lparr>min_x := Fin 500, min_y := Fin 500\<rparr>
      = \<lparr>min_x = Fin 500, min_y = Fin 500, max_x = Fin 1000, max_y = Fin 1000\<rparr>"
    by (simp add: mockLayout_def)
  from t accurate_ideal
  have m: "min_feature_size (analyzeLayout ideal (mockLayout ''chip.gds'')) = to_double ideal (324 / 10)"
    by blast
  from t have n: "min_feature_size (analyzeLayout ideal (mockLayout ''chip.gds'')) = Fin (324 / 10)"
    by blast
  from t b have i: "analyzeLayout ideal ((mockLayout ''chip.gds'')
         \<lparr>bounding_box := \<lparr>min_x = Fin 500, min_y = Fin 500, max_x = Fin 1000, max_y = Fin 1000\<rparr>\<rparr>)
       = analyzeLayout ideal (mockLayout ''chip.gds'')"
    by simp
  have l: "Layout.feature_count (mockLayout ''chip.gds'') = Fin 950
    \<and> bounding_box (mockLayout ''chip.gds'')
       = \<lparr>min_x = Fin 0, min_y = Fin 0, max_x = Fin 1000, max_y = Fin 1000\<rparr>"
    by (simp add: mockLayout_def)
  from m n i l accurate_ideal show ?thesis
    by blast
qed

text \<open>
  Claim C7, as amended. \<open>analyzeLayout\<close> has no failing path: it is a total function of
  the layout, and a division by zero shows in its result. When \<open>feature_count\<close> is
  zero, \<open>min_feature_size\<close> is \<open>NaN\<close> or an infinity; when the product
  \<open>max_x * max_y\<close> is zero, \<open>feature_density\<close> is \<open>NaN\<close> or an infinity.
\<close>

theorem analyzeLayout_division_by_zero:
  "(is_zero (Layout.feature_count L) \<longrightarrow> nonfinite (min_feature_size (analyzeLayout js L)))
   \<and> (is_zero (js_mul js (max_x (bounding_box L)) (max_y (bounding_box L)))
        \<longrightarrow> nonfinite (feature_density (analyzeLayout js L)))"
  by (simp add: analyzeLayout_metrics estimateMinFeatureSize_def js_div_by_zero
      Math_sqrt_nonfinite round_scale_nonfinite)

text \<open>
  The fixture without features: \<open>min_feature_size\<close> is not finite. The fixture of zero
  width: \<open>feature_density\<close> is not finite.
\<close>

theorem analyzeLayout_division_by_zero_witness:
  "is_zero (Layout.feature_count featureless_layout)
   \<and> nonfinite (min_feature_size (analyzeLayout ideal featureless_layout))
   \<and> is_zero (js_mul ideal (max_x (bounding_box flat_layout)) (max_y (bounding_box flat_layout)))
   \<and> nonfinite (feature_density (analyzeLayout ideal flat_layout))"
proof -
  have f: "is_zero (Layout.feature_count featureless_layout)"
    by (simp add: featureless_layout_def)
  have z: "is_zero (js_mul ideal (max_x (bounding_box flat_layout)) (max_y (bounding_box flat_layout)))"
    by (simp add: flat_layout_def js_mul_def signed_fin_def signed_zero_def)
  from analyzeLayout_division_by_zero [of featureless_layout ideal] f
  have a: "nonfinite (min_feature_size (analyzeLayout ideal featureless_layout))"
    by blast
  from analyzeLayout_division_by_zero [of flat_layout ideal] z
  have b: "nonfinite (feature_density (analyzeLayout ideal flat_layout))"
    by blast
  from f z a b show ?thesis
    by blast
qed

text \<open>
  Claim C7, as stated, fails on the fixture without features: \<open>feature_count\<close> is zero
  and \<open>min_feature_size\<close> is \<open>Infinity\<close>, but \<open>feature_density\<close> is \<open>0 / 1000000\<close>,
  the ordinary number \<open>0\<close>.
\<close>

theorem both_nonfinite_counterexample:
  "is_zero (Layout.feature_count featureless_layout)
   \<and> min_feature_size (analyzeLayout ideal featureless_layout) = PInf
   \<and> feature_density (analyzeLayout ideal featureless_layout) = Fin 0
   \<and> \<not> nonfinite (feature_density (analyzeLayout ideal featureless_layout))"
  by (simp add: analyzeLayout_metrics estimateMinFeatureSize_def featureless_layout_def mockLayout_def
      js_mul_def js_div_def signed_fin_def signed_inf_def signed_zero_def)

section \<open>Properties of the formatter\<close>

text \<open>
  Claim C9. Both renderers are to show the layer of a step exactly when the step has
  one. The step below has the layer \<open>ACTIVE\<close> and no material, method, thickness or
  temperature. \<open>formatText\<close> renders its \<open>Mask Layer\<close> line; \<open>formatMarkdown\<close> renders
  the heading and the description only, since its \<open>Mask Layer\<close> line sits inside the
  \<open>Parameters\<close> block, which is written only when one of the four other fields is set.
\<close>

theorem formatMarkdown_omits_layer:
  "layer layer_only_step = Some ''ACTIVE''
   \<and> take 2 (drop 8 (formatText_step ideal layer_only_step))
       = [Str ''  Mask Layer: '', Str ''ACTIVE'']
   \<and> formatMarkdown_step layer_only_step
       = [Str ''### Step '', Num (Fin 2), Str '': '', Str ''lithography'', Str (newline @ newline),
          Str ''Pattern active area'', Str (newline @ newline)]
   \<and> Str ''ACTIVE'' \<in> set (formatText ideal layer_only_flow)
   \<and> Str ''ACTIVE'' \<notin> set (formatMarkdown layer_only_flow)"
  by code_simp

end
